theory Spec2Isabelle
  imports Complex_Main "HOL-Library.Sublist"
begin

section \<open>The carousel batch driver (images/carousel/code/generate_all.py)\<close>

text \<open>
  The driver reads a JSON ledger of prompts, calls an image generation client for the
  selected items, crops the saved image, writes the outcome of every item back into
  the ledger and prints a status report. The model follows the script function by
  function. Everything the script does beyond returning a value is written out: the
  ledger file, the image files, the generation client, the clock and the sequence of
  effects are fields of a world record that is passed along, and every exception of
  the script is a value of type \<open>py_error\<close>.

  Strings are lists of characters; the texts are taken to be ASCII, where a Python
  character and a \<open>char\<close> agree. Progress lines written to standard output are not
  part of the model, except for the status report and the notice of a failed crop.
\<close>

subsection \<open>Python strings\<close>

text \<open>\<open>needle in hay\<close> on strings: \<open>needle\<close> occurs as a contiguous piece.\<close>

fun starts_with :: "string \<Rightarrow> string \<Rightarrow> bool" where
  "starts_with [] hay = True"
| "starts_with (n # ns) [] = False"
| "starts_with (n # ns) (h # hs) = (n = h \<and> starts_with ns hs)"

fun str_in :: "string \<Rightarrow> string \<Rightarrow> bool" where
  "str_in needle [] = (needle = [])"
| "str_in needle (h # hs) = (starts_with needle (h # hs) \<or> str_in needle hs)"

text \<open>\<open>s.replace(old, new)\<close> for a non-empty \<open>old\<close>: every occurrence, left to right.\<close>

function str_replace :: "string \<Rightarrow> string \<Rightarrow> string \<Rightarrow> string" where
  "str_replace old new s =
     (if s = [] then []
      else if old \<noteq> [] \<and> starts_with old s
        then new @ str_replace old new (drop (length old) s)
      else hd s # str_replace old new (tl s))"
  by pat_completeness auto
termination
  by (relation "measure (\<lambda>(old, new, s). length s)") auto

text \<open>\<open>s.upper()\<close> on ASCII text.\<close>

definition upper_char :: "char \<Rightarrow> char" where
  "upper_char c =
     (let n = (of_char c :: nat) in if 97 \<le> n \<and> n \<le> 122 then char_of (n - 32) else c)"

definition upper :: "string \<Rightarrow> string" where
  "upper s = map upper_char s"

text \<open>\<open>xs[:n]\<close>: the first \<open>n\<close> elements, and for a negative \<open>n\<close> all but the last \<open>-n\<close>.\<close>

definition slice_to :: "int \<Rightarrow> 'a list \<Rightarrow> 'a list" where
  "slice_to n xs = (if 0 \<le> n then take (nat n) xs else take (length xs - nat (- n)) xs)"

subsection \<open>Errors\<close>

datatype py_error =
    ZeroDivisionError
  | ValueError string
  | LedgerUnreadable
  | ImageUnreadable

definition py_truediv :: "int \<Rightarrow> int \<Rightarrow> py_error + rat" where
  "py_truediv a b = (if b = 0 then Inl ZeroDivisionError else Inr (of_int a / of_int b))"

subsection \<open>The ledger\<close>

text \<open>
  An entry of \<open>data["prompts"]\<close>, with the keys the driver reads, and the dictionary the
  driver stores under \<open>generation_status\<close>. A timestamp is the reading of the clock,
  which the script renders with \<open>isoformat()\<close>.
\<close>

type_synonym timestamp = rat

record generation_status =
  status :: string
  gs_filename :: string
  url :: "string option"
  gs_error :: "string option"
  generated_at :: "timestamp option"
  attempted_at :: "timestamp option"

record prompt_data =
  prompt_id :: int
  style_name :: string
  pack_name :: string
  industry_name :: string
  hook_pattern :: string
  filename :: string
  generation_status :: "generation_status option"

record data =
  version :: string
  description :: string
  prompts :: "prompt_data list"

text \<open>\<open>p.get("generation_status", {}).get("status")\<close>\<close>

definition get_status :: "prompt_data \<Rightarrow> string option" where
  "get_status p = (case generation_status p of None \<Rightarrow> None | Some g \<Rightarrow> Some (status g))"

definition URL_PREFIX :: string where
  "URL_PREFIX = ''https://fn7io.github.io/static_files/images/reference_carousels/''"

subsection \<open>build_carousel_prompt\<close>

definition style_visuals :: "(string \<times> string) list" where
  "style_visuals =
    [(''Modern Clean'', ''white background, blue accent, clean sans-serif font''),
     (''Minimalist'', ''pure white, thin gray text, maximum whitespace''),
     (''Simple Bold'', ''black and white only, huge bold text''),
     (''Elegant Premium'', ''navy and cream, gold accents, serif font''),
     (''Aesthetic Soft'', ''pastel pink/sage gradient, rounded corners''),
     (''Professional Corporate'', ''blue and white, clean grid layout''),
     (''Warm Friendly'', ''coral and peach tones, rounded friendly font''),
     (''Dark Dramatic'', ''charcoal background, white text, moody''),
     (''Playful Colorful'', ''bright primary colors, fun shapes''),
     (''Soft Organic'', ''earth tones (sage, terracotta), natural feel''),
     (''Retro Vintage'', ''faded orange/brown, 70s typography''),
     (''Tech Futuristic'', ''dark mode, neon cyan accents''),
     (''Editorial Magazine'', ''black/white with red accent, serif headlines''),
     (''Bold Typography'', ''giant text filling slides, color blocks''),
     (''Handcrafted Artisan'', ''craft paper texture, hand-lettered''),
     (''Lo-fi Raw'', ''unpolished, casual handwriting, authentic'')]"

text \<open>
  The slide texts of the table are quoted with single quotes in the source:
  \<open>slides\<close> writes \<open>Slide1:'a' Slide2:'b' ...\<close> for the five texts.
\<close>

definition quoted :: "string \<Rightarrow> string" where
  "quoted s = CHR 0x27 # s @ [CHR 0x27]"

definition slides :: "string \<Rightarrow> string \<Rightarrow> string \<Rightarrow> string \<Rightarrow> string \<Rightarrow> string" where
  "slides a b c d e =
     ''Slide1:'' @ quoted a @ '' Slide2:'' @ quoted b @ '' Slide3:'' @ quoted c
       @ '' Slide4:'' @ quoted d @ '' Slide5:'' @ quoted e"

text \<open>The arrow in the sixth key is U+2192, here in its three bytes of UTF-8.\<close>

definition pack_content :: "(string \<times> string) list" where
  "pack_content =
    [(''For [Tribe] Only'', slides ''For You'' ''Problem'' ''Solution'' ''Quote'' ''Join''),
     (''Founder Story / Anti-Ad'', slides ''Truth'' ''Before'' ''After'' ''Proof'' ''Start''),
     (''Social Proof Carousel'', slides ''Claim'' ''Stats'' ''Review'' ''Features'' ''CTA''),
     (''Myth Buster Carousel'', slides ''Myth'' ''Why'' ''Truth'' ''Proof'' ''Learn''),
     (''Insider Secret Reveal'', slides ''Secret'' ''Swipe'' ''Tips'' ''Works'' ''Save''),
     (''Problem '' @ [CHR 0xE2, CHR 0x86, CHR 0x92] @ '' Solution Carousel'',
        slides ''Stop'' ''Before/After'' ''How'' ''Results'' ''Start''),
     (''Price Math Carousel'', slides ''Price'' ''Compare'' ''Include'' ''Worth it'' ''Now''),
     (''X vs Y Comparison'', slides ''X vs Y'' ''Compare'' ''Winner'' ''Proof'' ''Try''),
     (''Educational Carousel'', slides ''Hook'' ''Point 1'' ''Point 2'' ''Tip'' ''Follow''),
     (''FOMO Launch Carousel'', slides ''Limited'' ''Product'' ''Includes'' ''Proof'' ''Act'')]"

definition nl :: string where
  "nl = [CHR 0x0A]"

definition build_carousel_prompt :: "prompt_data \<Rightarrow> string" where
  "build_carousel_prompt p =
     (let style = style_name p;
          pack = pack_name p;
          industry = industry_name p;
          hook = hook_pattern p;
          visual = (case map_of style_visuals style of None \<Rightarrow> style | Some v \<Rightarrow> v);
          content = (case map_of pack_content pack of
                       None \<Rightarrow> slides ''Hook'' ''Point'' ''Point'' ''Proof'' ''CTA''
                     | Some c \<Rightarrow> c)
      in ''Create a horizontal banner showing 5 carousel slides in a row.'' @ nl @ nl
         @ ''STYLE: '' @ upper style @ '' - '' @ visual @ nl @ nl
         @ ''Show 5 slides side by side. Each slide has bold text:'' @ nl
         @ content @ nl @ nl
         @ ''Make it clean and cohesive in the '' @ style @ '' style for '' @ industry @ ''.'')"

subsection \<open>Image files and the crop to 1000x200\<close>

text \<open>
  An image file is known by its size in pixels. \<open>Image.open\<close> raises when there is no
  readable image under the path; on an opened image \<open>crop\<close>, \<open>resize\<close> and \<open>save\<close>
  are taken to succeed, \<open>crop\<close> giving the size of its box and \<open>resize\<close> the size asked
  for.
\<close>

record image =
  img_w :: nat
  img_h :: nat

type_synonym disk = "string \<rightharpoonup> image"

text \<open>
  The box \<open>(left, upper, right, lower)\<close> the script crops to, from \<open>w, h = img.size\<close>.
  The script compares \<open>w / h\<close> with \<open>5.0\<close> and takes \<open>int(w / 5.0)\<close> and
  \<open>int(h * 5.0)\<close> in floating point; on image sizes (anything below \<open>2^50\<close>)
  these agree with \<open>w < 5 * h\<close>, \<open>w div 5\<close> and \<open>5 * h\<close>, which the model uses.
  \<open>w / h\<close> raises for \<open>h = 0\<close>.
\<close>

definition crop_box :: "nat \<Rightarrow> nat \<Rightarrow> py_error + (int \<times> int \<times> int \<times> int)" where
  "crop_box w h =
     (if h = 0 then Inl ZeroDivisionError
      else if int w < 5 * int h then
        (let new_h = int w div 5;
             top = (int h - new_h) div 2
         in Inr (0, top, int w, top + new_h))
      else
        (let new_w = int h * 5;
             left = (int w - new_w) div 2
         in Inr (left, 0, left + new_w, int h)))"

definition crop :: "image \<Rightarrow> int \<times> int \<times> int \<times> int \<Rightarrow> image" where
  "crop img box = (case box of (x0, y0, x1, y1) \<Rightarrow>
     \<lparr>img_w = nat (x1 - x0), img_h = nat (y1 - y0)\<rparr>)"

definition resize :: "image \<Rightarrow> nat \<times> nat \<Rightarrow> image" where
  "resize img sz = \<lparr>img_w = fst sz, img_h = snd sz\<rparr>"

definition post_process :: "string \<Rightarrow> disk \<Rightarrow> py_error + disk" where
  "post_process img_path d =
     (case d img_path of
        None \<Rightarrow> Inl ImageUnreadable
      | Some img \<Rightarrow>
          (case crop_box (img_w img) (img_h img) of
             Inl e \<Rightarrow> Inl e
           | Inr box \<Rightarrow> Inr (d(img_path \<mapsto> resize (crop img box) (1000, 200)))))"

subsection \<open>The world of a run\<close>

record status_report =
  n_success :: nat
  n_total :: nat
  percent :: rat
  n_failed :: nat
  n_pending :: int

datatype event =
    ReadLedger
  | WriteLedger
  | MakeOutputDir
  | Generate string string
  | Sleep rat
  | CropFailed py_error
  | NothingToProcess
  | StatusReport status_report

text \<open>
  \<open>ledger_file\<close> is what \<open>json.load\<close> gives on the prompts file, \<open>None\<close> when the
  file is missing or does not parse. \<open>client\<close> is the state of the generation client,
  \<open>log\<close> the effects so far, oldest first.
\<close>

record 'g world =
  ledger_file :: "data option"
  disk :: disk
  client :: 'g
  clock :: rat
  env :: "string \<rightharpoonup> string"
  log :: "event list"

text \<open>
  What \<open>generator.generate_image(prompt=..., output_path=...)\<close> gives back: it raises, or
  it returns a dictionary, of which the driver reads \<open>success\<close>, \<open>saved_paths\<close> and
  \<open>error\<close>. A missing \<open>success\<close> key counts as false. The client may write image
  files.
\<close>

record gen_result =
  success :: bool
  saved_paths :: "string list"
  error :: "string option"

datatype gen_outcome = Raised string | Returned gen_result

type_synonym 'g generator = "'g \<Rightarrow> disk \<Rightarrow> string \<Rightarrow> string \<Rightarrow> gen_outcome \<times> 'g \<times> disk"

definition call_generator ::
  "'g generator \<Rightarrow> string \<Rightarrow> string \<Rightarrow> 'g world \<Rightarrow> gen_outcome \<times> 'g world" where
  "call_generator gen prompt output_path w =
     (case gen (client w) (disk w) prompt output_path of
        (out, c, d) \<Rightarrow>
          (out, w\<lparr>client := c, disk := d, log := log w @ [Generate prompt output_path]\<rparr>))"

text \<open>\<open>time.sleep(secs)\<close> for \<open>secs \<ge> 0\<close>.\<close>

definition sleep_for :: "rat \<Rightarrow> 'g world \<Rightarrow> 'g world" where
  "sleep_for secs w = w\<lparr>clock := clock w + secs, log := log w @ [Sleep secs]\<rparr>"

definition load_prompts :: "'g world \<Rightarrow> (py_error + data) \<times> 'g world" where
  "load_prompts w =
     ((case ledger_file w of None \<Rightarrow> Inl LedgerUnreadable | Some d \<Rightarrow> Inr d),
      w\<lparr>log := log w @ [ReadLedger]\<rparr>)"

text \<open>A call of \<open>save_prompts\<close> that runs to its end.\<close>

definition save_prompts :: "data \<Rightarrow> 'g world \<Rightarrow> 'g world" where
  "save_prompts d w = w\<lparr>ledger_file := Some d, log := log w @ [WriteLedger]\<rparr>"

subsection \<open>generate_single\<close>

text \<open>The three dictionaries \<open>generate_single\<close> returns; \<open>now\<close> is \<open>datetime.now()\<close>.\<close>

definition success_status :: "prompt_data \<Rightarrow> timestamp \<Rightarrow> generation_status" where
  "success_status pd now =
     \<lparr>status = ''success'', gs_filename = filename pd,
      url = Some (URL_PREFIX @ filename pd), gs_error = None,
      generated_at = Some now, attempted_at = None\<rparr>"

definition failure_status :: "string \<Rightarrow> prompt_data \<Rightarrow> string \<Rightarrow> timestamp \<Rightarrow> generation_status" where
  "failure_status st pd err now =
     \<lparr>status = st, gs_filename = filename pd, url = None, gs_error = Some err,
      generated_at = None, attempted_at = Some now\<rparr>"

text \<open>
  The crop of the first saved image, inside its own \<open>try\<close>: an exception is printed
  and goes no further.
\<close>

definition crop_saved :: "gen_result \<Rightarrow> 'g world \<Rightarrow> 'g world" where
  "crop_saved result w =
     (if success result \<and> saved_paths result \<noteq> [] then
        (case post_process (hd (saved_paths result)) (disk w) of
           Inl crop_err \<Rightarrow> w\<lparr>log := log w @ [CropFailed crop_err]\<rparr>
         | Inr d \<Rightarrow> w\<lparr>disk := d\<rparr>)
      else w)"

text \<open>
  The loop \<open>for attempt in range(1, max_retries + 1)\<close> from \<open>attempt\<close> on, with the
  \<open>return\<close> after the loop as its first branch.
\<close>

function attempt_loop ::
  "'g generator \<Rightarrow> prompt_data \<Rightarrow> string \<Rightarrow> string \<Rightarrow> int \<Rightarrow> int \<Rightarrow> 'g world
     \<Rightarrow> generation_status \<times> 'g world" where
  "attempt_loop gen pd prompt output_path max_retries attempt w =
     (if max_retries < attempt then
        (failure_status ''failed'' pd ''Max retries'' (clock w), w)
      else
        (case call_generator gen prompt output_path w of
           (Raised e, w1) \<Rightarrow>
             if attempt < max_retries then
               attempt_loop gen pd prompt output_path max_retries (attempt + 1) (sleep_for 5 w1)
             else (failure_status ''exception'' pd (take 200 e) (clock w1), w1)
         | (Returned result, w1) \<Rightarrow>
             (let w2 = crop_saved result w1 in
              if success result then (success_status pd (clock w2), w2)
              else
                (let err = (case error result of None \<Rightarrow> ''Unknown'' | Some e \<Rightarrow> e) in
                 if str_in ''500'' err \<and> attempt < max_retries then
                   attempt_loop gen pd prompt output_path max_retries (attempt + 1)
                     (sleep_for 5 w2)
                 else (failure_status ''failed'' pd (take 200 err) (clock w2), w2)))))"
  by pat_completeness auto
termination
  by (relation "measure (\<lambda>(gen, pd, prompt, output_path, max_retries, attempt, w).
                  nat (max_retries + 1 - attempt))") auto

declare attempt_loop.simps [simp del]

text \<open>\<open>output_dir / name\<close> on paths.\<close>

definition path_join :: "string \<Rightarrow> string \<Rightarrow> string" where
  "path_join dir name =
     (if name = [] then dir
      else if hd name = CHR ''/'' then name
      else dir @ ''/'' @ name)"

definition generate_single ::
  "'g generator \<Rightarrow> prompt_data \<Rightarrow> string \<Rightarrow> int \<Rightarrow> 'g world \<Rightarrow> generation_status \<times> 'g world" where
  "generate_single gen pd output_dir max_retries w =
     (let output_path = path_join output_dir (str_replace ''.png'' [] (filename pd));
          prompt = build_carousel_prompt pd
      in attempt_loop gen pd prompt output_path max_retries 1 w)"

subsection \<open>Selection and status report\<close>

definition is_failed :: "prompt_data \<Rightarrow> bool" where
  "is_failed p = (get_status p \<in> set [Some ''failed'', Some ''exception''])"

definition get_pending :: "data \<Rightarrow> prompt_data list" where
  "get_pending d = filter (\<lambda>p. get_status p \<noteq> Some ''success'') (prompts d)"

text \<open>The comprehension of \<open>main\<close> for \<open>--retry-failed\<close>, before the slice.\<close>

definition get_failed :: "data \<Rightarrow> prompt_data list" where
  "get_failed d = filter is_failed (prompts d)"

text \<open>
  The lists \<open>main\<close> selects hold the dictionaries of \<open>data["prompts"]\<close> themselves, and
  \<open>main\<close> updates them in place. The model keeps their positions in
  \<open>data["prompts"]\<close>.
\<close>

definition select_refs :: "(prompt_data \<Rightarrow> bool) \<Rightarrow> data \<Rightarrow> nat list" where
  "select_refs P d = filter (\<lambda>i. P (prompts d ! i)) [0..<length (prompts d)]"

definition print_status :: "data \<Rightarrow> 'g world \<Rightarrow> (py_error + unit) \<times> 'g world" where
  "print_status d w =
     (let total = length (prompts d);
          succeeded = length (filter (\<lambda>p. get_status p = Some ''success'') (prompts d));
          failed = length (filter is_failed (prompts d))
      in case py_truediv (100 * int succeeded) (int total) of
           Inl e \<Rightarrow> (Inl e, w)
         | Inr pct \<Rightarrow>
             (Inr (),
              w\<lparr>log := log w @
                 [StatusReport \<lparr>n_success = succeeded, n_total = total, percent = pct,
                    n_failed = failed,
                    n_pending = int total - int succeeded - int failed\<rparr>]\<rparr>))"

subsection \<open>main\<close>

record args =
  start :: int
  batch :: int
  resume :: bool
  retry_failed :: bool
  status_only :: bool
  delay :: rat

definition default_args :: args where
  "default_args =
     \<lparr>start = 1, batch = 177, resume = False, retry_failed = False, status_only = False,
      delay = 2\<rparr>"

text \<open>
  \<open>NanoBananaProGenerator()\<close>: the key is read from the environment, and a missing or
  empty key raises.
\<close>

definition NanoBananaProGenerator_init :: "(string \<rightharpoonup> string) \<Rightarrow> py_error + string" where
  "NanoBananaProGenerator_init e =
     (case e ''GEMINI_API_KEY'' of
        None \<Rightarrow> Inl (ValueError ''API key required.'')
      | Some k \<Rightarrow> if k = [] then Inl (ValueError ''API key required.'') else Inr k)"

text \<open>
  The loop over \<open>enumerate(to_process)\<close>; \<open>n\<close> is \<open>len(to_process)\<close>. A negative
  \<open>--delay\<close> makes \<open>time.sleep\<close> raise.
\<close>

fun process_items ::
  "'g generator \<Rightarrow> args \<Rightarrow> string \<Rightarrow> nat \<Rightarrow> (nat \<times> nat) list \<Rightarrow> data \<Rightarrow> 'g world
     \<Rightarrow> (py_error + data) \<times> 'g world" where
  "process_items gen a output_dir n [] d w = (Inr d, w)"
| "process_items gen a output_dir n ((i, r) # rest) d w =
     (let pd = prompts d ! r in
      if \<not> retry_failed a \<and> get_status pd = Some ''success'' then
        process_items gen a output_dir n rest d w
      else
        (case generate_single gen pd output_dir 2 w of
           (result, w1) \<Rightarrow>
             (let d1 = d\<lparr>prompts := (prompts d)[r := pd\<lparr>generation_status := Some result\<rparr>]\<rparr>;
                  w2 = save_prompts d1 w1
              in if int i < int n - 1 then
                   (if delay a < 0 then
                      (Inl (ValueError ''sleep length must be non-negative''), w2)
                    else process_items gen a output_dir n rest d1 (sleep_for (delay a) w2))
                 else process_items gen a output_dir n rest d1 w2)))"

text \<open>The value of \<open>to_process\<close> in \<open>main\<close>, for the three modes.\<close>

definition select_batch :: "args \<Rightarrow> data \<Rightarrow> nat list" where
  "select_batch a d =
     (if resume a then
        slice_to (batch a) (select_refs (\<lambda>p. get_status p \<noteq> Some ''success'') d)
      else if retry_failed a then
        slice_to (batch a) (select_refs is_failed d)
      else slice_to (batch a) (select_refs (\<lambda>p. start a \<le> prompt_id p) d))"

definition main ::
  "'g generator \<Rightarrow> args \<Rightarrow> string \<Rightarrow> 'g world \<Rightarrow> (py_error + unit) \<times> 'g world" where
  "main gen a output_dir w0 =
     (case load_prompts w0 of
        (Inl e, w) \<Rightarrow> (Inl e, w)
      | (Inr d, w) \<Rightarrow>
          if status_only a then print_status d w
          else
            (let to_process = select_batch a d
             in if to_process = [] then
                  print_status d (w\<lparr>log := log w @ [NothingToProcess]\<rparr>)
                else
                  (let w1 = w\<lparr>log := log w @ [MakeOutputDir]\<rparr> in
                   case NanoBananaProGenerator_init (env w1) of
                     Inl e \<Rightarrow> (Inl e, w1)
                   | Inr key \<Rightarrow>
                       (case process_items gen a output_dir (length to_process)
                               (enumerate 0 to_process) d w1 of
                          (Inl e, w2) \<Rightarrow> (Inl e, w2)
                        | (Inr d', w2) \<Rightarrow> print_status d' w2))))"

text \<open>The exit code of the process: an exception that nothing catches gives 1.\<close>

definition exit_code :: "(py_error + unit) \<Rightarrow> nat" where
  "exit_code r = (case r of Inl e \<Rightarrow> 1 | Inr u \<Rightarrow> 0)"

subsection \<open>The bytes of the ledger file during save_prompts\<close>

text \<open>
  \<open>open(PROMPTS_FILE, 'w')\<close> empties the file, then \<open>json.dump\<close> writes the text of
  \<open>data\<close> piece by piece. Given the pieces and the old content, the contents of the file
  in order: before the call, after \<open>open\<close>, and after each write. A call that is
  interrupted leaves the file in one of them.
\<close>

definition save_prompts_trace :: "string list \<Rightarrow> string \<Rightarrow> string list" where
  "save_prompts_trace chunks old =
     old # map (\<lambda>n. concat (take n chunks)) [0..<Suc (length chunks)]"

subsection \<open>Concrete ledgers, clients and worlds\<close>

definition item :: "int \<Rightarrow> string \<Rightarrow> generation_status option \<Rightarrow> prompt_data" where
  "item i f g =
     \<lparr>prompt_id = i, style_name = ''Minimalist'', pack_name = ''Educational Carousel'',
      industry_name = ''Fitness'', hook_pattern = ''Did you know'', filename = f,
      generation_status = g\<rparr>"

definition recorded :: "string \<Rightarrow> generation_status option" where
  "recorded st =
     Some \<lparr>status = st, gs_filename = [], url = None, gs_error = None,
           generated_at = None, attempted_at = None\<rparr>"

text \<open>Five items with the statuses success, pending, failed, success, exception.\<close>

definition ledger5 :: data where
  "ledger5 =
     \<lparr>version = ''4.0'', description = ''five items'',
      prompts =
        [item 1 ''001.png'' (recorded ''success''), item 2 ''002.png'' None,
         item 3 ''003.png'' (recorded ''failed''), item 4 ''004.png'' (recorded ''success''),
         item 5 ''005.png'' (recorded ''exception'')]\<rparr>"

text \<open>Three pending items, and the ledger without items.\<close>

definition ledger3 :: data where
  "ledger3 =
     \<lparr>version = ''4.0'', description = ''three items'',
      prompts = [item 1 ''001.png'' None, item 2 ''002.png'' None, item 3 ''003.png'' None]\<rparr>"

definition ledger0 :: data where
  "ledger0 = \<lparr>version = ''4.0'', description = ''no items'', prompts = []\<rparr>"

definition ok_result :: "string list \<Rightarrow> gen_result" where
  "ok_result ps = \<lparr>success = True, saved_paths = ps, error = None\<rparr>"

definition err_result :: "string \<Rightarrow> gen_result" where
  "err_result e = \<lparr>success = False, saved_paths = [], error = Some e\<rparr>"

text \<open>
  A client for the ledger of three items. Its state is the list of the output paths
  it was called with. Item 1 succeeds and saves an image of 1200x200; item 2 reports a
  server error on its first two calls and succeeds on the third; item 3 reports a
  client error.
\<close>

definition stub3 :: "string list generator" where
  "stub3 calls d prompt path =
     (let n = length (filter (\<lambda>p. p = path) calls) in
      if path = ''out/001'' then
        (Returned (ok_result [''out/001.png'']), calls @ [path],
         d(''out/001.png'' \<mapsto> \<lparr>img_w = 1200, img_h = 200\<rparr>))
      else if path = ''out/002'' then
        (if n < 2 then
           (Returned (err_result ''Error generating image: 500 INTERNAL''), calls @ [path], d)
         else
           (Returned (ok_result [''out/002.png'']), calls @ [path],
            d(''out/002.png'' \<mapsto> \<lparr>img_w = 1200, img_h = 200\<rparr>)))
      else
        (Returned (err_result ''Error generating image: 400 INVALID_ARGUMENT''),
         calls @ [path], d))"

text \<open>A client that reports the same error on every call, and one that always succeeds.\<close>

definition stub_error :: "string \<Rightarrow> string list generator" where
  "stub_error e calls d prompt path = (Returned (err_result e), calls @ [path], d)"

definition stub_ok :: "string list \<Rightarrow> string list generator" where
  "stub_ok ps calls d prompt path = (Returned (ok_result ps), calls @ [path], d)"

definition world_of :: "data \<Rightarrow> (string \<rightharpoonup> string) \<Rightarrow> string list world" where
  "world_of d e =
     \<lparr>ledger_file = Some d, disk = Map.empty, client = [], clock = 0, env = e, log = []\<rparr>"

definition with_key :: "string \<rightharpoonup> string" where
  "with_key = [''GEMINI_API_KEY'' \<mapsto> ''secret'']"

text \<open>The world of the three items with the image of item 1 already on disk.\<close>

definition world_with_image :: "string list world" where
  "world_with_image =
     (world_of ledger3 with_key)\<lparr>disk := [''out/001.png'' \<mapsto> \<lparr>img_w = 1200, img_h = 200\<rparr>]\<rparr>"

text \<open>
  The marker of the specification, "a marker indicating a server-side (5xx) failure",
  read as an HTTP status code from 500 to 599 somewhere in the error text. The script
  itself looks for the text \<open>500\<close> only.
\<close>

definition is_digit :: "char \<Rightarrow> bool" where
  "is_digit c = (48 \<le> (of_char c :: nat) \<and> (of_char c :: nat) \<le> 57)"

fun server_side_marker :: "string \<Rightarrow> bool" where
  "server_side_marker (a # b # c # rest) =
     ((a = CHR ''5'' \<and> is_digit b \<and> is_digit c) \<or> server_side_marker (b # c # rest))"
| "server_side_marker rest = False"

text \<open>The number of calls of the generation client in a log.\<close>

definition generate_calls :: "event list \<Rightarrow> nat" where
  "generate_calls l =
     length (filter (\<lambda>e. case e of Generate p out \<Rightarrow> True | _ \<Rightarrow> False) l)"

text \<open>The text \<open>{"prompts": []}\<close>, and the pieces of \<open>{"prompts": [{"id": 1}]}\<close>.\<close>

definition dquoted :: "string \<Rightarrow> string" where
  "dquoted s = CHR 0x22 # s @ [CHR 0x22]"

definition old_text :: string where
  "old_text = ''{'' @ dquoted ''prompts'' @ '': []}''"

definition new_chunks :: "string list" where
  "new_chunks =
     [''{'', dquoted ''prompts'', '': '', ''[{'', dquoted ''id'', '': '', ''1'', ''}]'', ''}'']"

section \<open>Properties\<close>

subsection \<open>Facts about the steps of a run\<close>

lemma call_generator_fields:
  "call_generator gen p out w = (r, w1) \<Longrightarrow>
     log w1 = log w @ [Generate p out] \<and> clock w1 = clock w
     \<and> ledger_file w1 = ledger_file w \<and> env w1 = env w"
  by (auto simp: call_generator_def split: prod.splits)

lemma crop_saved_not_success: "\<not> success r \<Longrightarrow> crop_saved r w = w"
  by (simp add: crop_saved_def)

lemma crop_saved_clock: "clock (crop_saved r w) = clock w"
  by (simp add: crop_saved_def split: sum.splits)

lemma crop_saved_log: "prefix (log w) (log (crop_saved r w))"
  by (simp add: crop_saved_def split: sum.splits)

lemma generate_calls_append: "generate_calls (xs @ ys) = generate_calls xs + generate_calls ys"
  by (simp add: generate_calls_def)

lemma attempt_loop_log_prefix:
  "prefix (log w) (log (snd (attempt_loop gen pd prompt path m a w)))"
proof (induction gen pd prompt path m a w rule: attempt_loop.induct)
  case (1 gen pd prompt path m a w)
  show ?case
  proof (cases "m < a")
    case True
    then show ?thesis by (subst attempt_loop.simps) simp
  next
    case False
    obtain out w1 where cg: "call_generator gen prompt path w = (out, w1)"
      by (cases "call_generator gen prompt path w") auto
    have l1: "log w1 = log w @ [Generate prompt path]"
      using call_generator_fields [OF cg] by simp
    show ?thesis
    proof (cases out)
      case (Raised e)
      show ?thesis
      proof (cases "a < m")
        case True
        have "prefix (log (sleep_for 5 w1))
                (log (snd (attempt_loop gen pd prompt path m (a + 1) (sleep_for 5 w1))))"
          using "1.IH"(1) [OF False cg [symmetric] Raised True] .
        then have "prefix (log w) (log (snd (attempt_loop gen pd prompt path m (a + 1) (sleep_for 5 w1))))"
          using l1 by (auto simp: sleep_for_def dest: append_prefixD)
        then show ?thesis
          using False cg Raised True by (subst attempt_loop.simps) simp
      next
        case nolt: False
        then show ?thesis
          using False cg Raised l1 by (subst attempt_loop.simps) simp
      qed
    next
      case (Returned r)
      define w2 where "w2 = crop_saved r w1"
      have l2: "prefix (log w) (log w2)"
        using crop_saved_log [of w1 r] l1 unfolding w2_def by (auto dest: append_prefixD)
      show ?thesis
      proof (cases "\<not> success r \<and> str_in ''500'' (case error r of None \<Rightarrow> ''Unknown'' | Some e \<Rightarrow> e) \<and> a < m")
        case True
        have "prefix (log (sleep_for 5 w2))
                (log (snd (attempt_loop gen pd prompt path m (a + 1) (sleep_for 5 w2))))"
          using "1.IH"(2) [OF False cg [symmetric] Returned w2_def _ refl] True by simp
        then have "prefix (log w2) (log (snd (attempt_loop gen pd prompt path m (a + 1) (sleep_for 5 w2))))"
          by (auto simp: sleep_for_def dest: append_prefixD)
        with l2 have "prefix (log w) (log (snd (attempt_loop gen pd prompt path m (a + 1) (sleep_for 5 w2))))"
          by (rule prefix_order.trans)
        then show ?thesis
          using False cg Returned True
          by (subst attempt_loop.simps) (simp add: w2_def Let_def)
      next
        case nore: False
        then show ?thesis
          using False cg Returned l2
          by (subst attempt_loop.simps) (auto simp: w2_def Let_def)
      qed
    qed
  qed
qed


lemma attempt_loop_log_after_call:
  assumes "\<not> m < a" and cg: "call_generator gen prompt path w = (out, w1)"
  shows "prefix (log w1) (log (snd (attempt_loop gen pd prompt path m a w)))"
proof (cases out)
  case (Raised e)
  show ?thesis
  proof (cases "a < m")
    case True
    have "prefix (log (sleep_for 5 w1))
            (log (snd (attempt_loop gen pd prompt path m (a + 1) (sleep_for 5 w1))))"
      by (rule attempt_loop_log_prefix)
    then have "prefix (log w1) (log (snd (attempt_loop gen pd prompt path m (a + 1) (sleep_for 5 w1))))"
      by (auto simp: sleep_for_def dest: append_prefixD)
    then show ?thesis
      using assms Raised True by (subst attempt_loop.simps) simp
  next
    case False
    then show ?thesis
      using assms Raised by (subst attempt_loop.simps) simp
  qed
next
  case (Returned r)
  define w2 where "w2 = crop_saved r w1"
  have l2: "prefix (log w1) (log w2)"
    unfolding w2_def by (rule crop_saved_log)
  show ?thesis
  proof (cases "\<not> success r \<and> str_in ''500'' (case error r of None \<Rightarrow> ''Unknown'' | Some e \<Rightarrow> e) \<and> a < m")
    case True
    have "prefix (log (sleep_for 5 w2))
            (log (snd (attempt_loop gen pd prompt path m (a + 1) (sleep_for 5 w2))))"
      by (rule attempt_loop_log_prefix)
    then have "prefix (log w2) (log (snd (attempt_loop gen pd prompt path m (a + 1) (sleep_for 5 w2))))"
      by (auto simp: sleep_for_def dest: append_prefixD)
    with l2 have "prefix (log w1) (log (snd (attempt_loop gen pd prompt path m (a + 1) (sleep_for 5 w2))))"
      by (rule prefix_order.trans)
    then show ?thesis
      using assms Returned True by (subst attempt_loop.simps) (simp add: w2_def Let_def)
  next
    case False
    then show ?thesis
      using assms Returned l2 by (subst attempt_loop.simps) (auto simp: w2_def Let_def)
  qed
qed

lemma attempt_loop_reported_failure:
  assumes cg: "call_generator gen prompt path w = (Returned r, w1)"
    and nos: "\<not> success r"
    and le: "attempt \<le> max_retries"
  shows "attempt_loop gen pd prompt path max_retries attempt w =
           (if str_in ''500'' (case error r of None \<Rightarrow> ''Unknown'' | Some e \<Rightarrow> e) \<and> attempt < max_retries
            then attempt_loop gen pd prompt path max_retries (attempt + 1) (sleep_for 5 w1)
            else (failure_status ''failed'' pd
                    (take 200 (case error r of None \<Rightarrow> ''Unknown'' | Some e \<Rightarrow> e)) (clock w1), w1))"
  using assms by (subst attempt_loop.simps) (simp add: crop_saved_not_success Let_def)

lemma concat_take_prefix: "prefix (concat (take n chunks)) (concat chunks)"
  by (metis append_take_drop_id concat_append prefixI)

lemma select_refs_items: "map (\<lambda>i. prompts d ! i) (select_refs P d) = filter P (prompts d)"
proof -
  have "map ((!) xs) (filter (\<lambda>i. P (xs ! i)) [0..<length xs]) = filter P xs" for xs :: "prompt_data list"
    by (metis (mono_tags, lifting) comp_apply filter_cong filter_map map_nth)
  then show ?thesis by (simp add: select_refs_def)
qed

lemma loop_always_transient:
  assumes gen: "\<forall>c d p out. \<exists>r c' d'. gen c d p out = (Returned r, c', d') \<and> \<not> success r
                  \<and> (\<exists>e. error r = Some e \<and> str_in ''500'' e)"
  shows "a \<le> m \<Longrightarrow> nat (m - a) = n \<Longrightarrow>
     \<exists>res w'. attempt_loop gen pd prompt path m a w = (res, w')
       \<and> status res = ''failed'' \<and> attempted_at res = Some (clock w')
       \<and> (\<exists>e. str_in ''500'' e \<and> gs_error res = Some (take 200 e))
       \<and> generate_calls (log w') = generate_calls (log w) + n + 1
       \<and> clock w' = clock w + 5 * of_nat n"
proof (induction n arbitrary: a w)
  case 0
  obtain r c' d' e where g: "gen (client w) (disk w) prompt path = (Returned r, c', d')"
    and nos: "\<not> success r" and er: "error r = Some e" and tr: "str_in ''500'' e"
    using gen by blast
  define w1 where "w1 = w\<lparr>client := c', disk := d', log := log w @ [Generate prompt path]\<rparr>"
  have cg: "call_generator gen prompt path w = (Returned r, w1)"
    by (simp add: call_generator_def g w1_def)
  have "a = m" using 0 by simp
  then have "attempt_loop gen pd prompt path m a w =
          (failure_status ''failed'' pd (take 200 e) (clock w1), w1)"
    using attempt_loop_reported_failure [OF cg nos "0.prems"(1)] er by simp
  moreover have "generate_calls (log w1) = generate_calls (log w) + 1"
    by (simp add: w1_def generate_calls_def)
  moreover have "clock w1 = clock w" by (simp add: w1_def)
  ultimately show ?case using tr by (auto simp: failure_status_def)
next
  case (Suc n)
  obtain r c' d' e where g: "gen (client w) (disk w) prompt path = (Returned r, c', d')"
    and nos: "\<not> success r" and er: "error r = Some e" and tr: "str_in ''500'' e"
    using gen by blast
  define w1 where "w1 = w\<lparr>client := c', disk := d', log := log w @ [Generate prompt path]\<rparr>"
  have cg: "call_generator gen prompt path w = (Returned r, w1)"
    by (simp add: call_generator_def g w1_def)
  have lt: "a < m" using Suc.prems by simp
  have step: "attempt_loop gen pd prompt path m a w =
          attempt_loop gen pd prompt path m (a + 1) (sleep_for 5 w1)"
    using attempt_loop_reported_failure [OF cg nos Suc.prems(1)] er tr lt by simp
  have "a + 1 \<le> m" "nat (m - (a + 1)) = n" using Suc.prems by simp_all
  from Suc.IH [OF this, of "sleep_for 5 w1"]
  obtain res w' where ih: "attempt_loop gen pd prompt path m (a + 1) (sleep_for 5 w1) = (res, w')"
     "status res = ''failed''" "attempted_at res = Some (clock w')"
     "\<exists>e. str_in ''500'' e \<and> gs_error res = Some (take 200 e)"
     "generate_calls (log w') = generate_calls (log (sleep_for 5 w1)) + n + 1"
     "clock w' = clock (sleep_for 5 w1) + 5 * of_nat n"
    by blast
  have "generate_calls (log (sleep_for 5 w1)) = generate_calls (log w) + 1"
    by (simp add: w1_def sleep_for_def generate_calls_def)
  moreover have "clock (sleep_for 5 w1) = clock w + 5"
    by (simp add: w1_def sleep_for_def)
  ultimately show ?case using ih step by (simp add: algebra_simps)
qed

subsection \<open>Selection of pending and failed items\<close>

text \<open>
  C5, as the code has it. \<open>get_pending\<close> gives exactly the items whose status is not
  success (no status counting as pending) and \<open>get_failed\<close> exactly those whose status
  is failed or exception, both in the order of the ledger. Over the statuses
  success, pending, failed, success, exception they give the items 2, 3, 5 and the
  items 3, 5: a failed item is not a success, so it is pending as well.
\<close>

theorem get_pending_get_failed_in_order:
  "set (get_pending d) = {p \<in> set (prompts d). get_status p \<noteq> Some ''success''}
   \<and> subseq (get_pending d) (prompts d)
   \<and> set (get_failed d) =
       {p \<in> set (prompts d). get_status p = Some ''failed'' \<or> get_status p = Some ''exception''}
   \<and> subseq (get_failed d) (prompts d)
   \<and> (map get_status (prompts d) =
         [Some ''success'', None, Some ''failed'', Some ''success'', Some ''exception'']
       \<longrightarrow> get_pending d = [prompts d ! 1, prompts d ! 2, prompts d ! 4]
         \<and> get_failed d = [prompts d ! 2, prompts d ! 4])"
  by (auto simp: get_pending_def get_failed_def is_failed_def map_eq_Cons_conv)

theorem get_pending_get_failed_in_order_witness:
  "map get_status (prompts ledger5) =
     [Some ''success'', None, Some ''failed'', Some ''success'', Some ''exception'']
   \<and> map prompt_id (get_pending ledger5) = [2, 3, 5]
   \<and> map prompt_id (get_failed ledger5) = [3, 5]"
  using get_pending_get_failed_in_order [of ledger5]
  by (simp add: ledger5_def item_def recorded_def get_status_def)

text \<open>C5 as stated fails: on the five items \<open>get_pending\<close> does not give item 2 alone.\<close>

theorem get_pending_only_item2_counterexample:
  "\<not> (map prompt_id (get_pending ledger5) = [2] \<and> map prompt_id (get_failed ledger5) = [3, 5])"
  by (simp add: ledger5_def item_def recorded_def get_status_def get_pending_def)

subsection \<open>The prompt\<close>

text \<open>
  C8. The prompt is a function of the style, pack and industry of the item alone
  (the hook is read and not used): two items that agree on them get the same prompt,
  character by character, whatever their ids, file names and recorded statuses.
\<close>

theorem build_carousel_prompt_deterministic:
  "style_name p = style_name q \<Longrightarrow> pack_name p = pack_name q
   \<Longrightarrow> industry_name p = industry_name q \<Longrightarrow> hook_pattern p = hook_pattern q
   \<Longrightarrow> build_carousel_prompt p = build_carousel_prompt q"
  by (simp add: build_carousel_prompt_def)

theorem build_carousel_prompt_deterministic_witness:
  "item 1 ''001.png'' None \<noteq> item 2 ''002.png'' (recorded ''failed'')
   \<and> build_carousel_prompt (item 1 ''001.png'' None)
       = build_carousel_prompt (item 2 ''002.png'' (recorded ''failed''))"
  using build_carousel_prompt_deterministic
          [of "item 1 ''001.png'' None" "item 2 ''002.png'' (recorded ''failed'')"]
  by (simp add: item_def)

subsection \<open>The crop\<close>

text \<open>
  C9. An image of 1200x200 is cropped to the box from 100 to 1100 across its full
  height, which leaves 100 pixels out on each side and lies inside the image; the crop
  is 1000x200, and the file then holds the crop resized to 1000x200.
\<close>

theorem post_process_1200x200:
  "crop_box 1200 200 = Inr (100, 0, 1100, 200)
   \<and> crop \<lparr>img_w = 1200, img_h = 200\<rparr> (100, 0, 1100, 200) = \<lparr>img_w = 1000, img_h = 200\<rparr>
   \<and> post_process p (d(p \<mapsto> \<lparr>img_w = 1200, img_h = 200\<rparr>))
       = Inr (d(p \<mapsto> resize (crop \<lparr>img_w = 1200, img_h = 200\<rparr> (100, 0, 1100, 200))
                         (1000, 200)))
   \<and> resize (crop \<lparr>img_w = 1200, img_h = 200\<rparr> (100, 0, 1100, 200)) (1000, 200)
       = \<lparr>img_w = 1000, img_h = 200\<rparr>"
  by (simp add: crop_box_def crop_def post_process_def resize_def Let_def)

subsection \<open>Retries\<close>

text \<open>
  C2. With a client that reports a failure with the marker \<open>500\<close> on every call,
  \<open>generate_single\<close> with \<open>max_retries \<ge> 1\<close> returns: it calls the client exactly
  \<open>max_retries\<close> times, sleeps five seconds between two calls, and gives the status
  failed with the first 200 characters of a reported error text and the time of the
  last attempt.
\<close>

theorem always_transient_exactly_max_retries_attempts:
  assumes "1 \<le> max_retries"
    and gen: "\<forall>c d p out. \<exists>r c' d'. gen c d p out = (Returned r, c', d') \<and> \<not> success r
                  \<and> (\<exists>e. error r = Some e \<and> str_in ''500'' e)"
  shows "\<exists>res w'. generate_single gen pd output_dir max_retries w = (res, w')
       \<and> status res = ''failed'' \<and> attempted_at res = Some (clock w')
       \<and> (\<exists>e. str_in ''500'' e \<and> gs_error res = Some (take 200 e))
       \<and> generate_calls (log w') = generate_calls (log w) + nat max_retries
       \<and> clock w' = clock w + 5 * of_int (max_retries - 1)"
proof -
  have n: "nat (max_retries - 1) + 1 = nat max_retries"
    and k: "(of_nat (nat (max_retries - 1)) :: rat) = of_int (max_retries - 1)"
    using assms(1) by simp_all
  obtain res w' where
    "attempt_loop gen pd (build_carousel_prompt pd)
       (path_join output_dir (str_replace ''.png'' [] (filename pd))) max_retries 1 w = (res, w')"
    "status res = ''failed''" "attempted_at res = Some (clock w')"
    "\<exists>e. str_in ''500'' e \<and> gs_error res = Some (take 200 e)"
    "generate_calls (log w') = generate_calls (log w) + nat (max_retries - 1) + 1"
    "clock w' = clock w + 5 * of_nat (nat (max_retries - 1))"
    using loop_always_transient [OF gen assms(1) refl] by blast
  then show ?thesis
    unfolding generate_single_def Let_def using n k by auto
qed

theorem always_transient_exactly_max_retries_attempts_witness:
  "(1::int) \<le> 3
   \<and> status (fst (generate_single (stub_error ''Error generating image: 500 INTERNAL'')
                 (item 1 ''001.png'' None) ''out'' 3 (world_of ledger3 with_key))) = ''failed''
   \<and> generate_calls (log (snd (generate_single (stub_error ''Error generating image: 500 INTERNAL'')
                 (item 1 ''001.png'' None) ''out'' 3 (world_of ledger3 with_key)))) = 3
   \<and> clock (snd (generate_single (stub_error ''Error generating image: 500 INTERNAL'')
                 (item 1 ''001.png'' None) ''out'' 3 (world_of ledger3 with_key))) = 10"
proof -
  have m: "(1::int) \<le> 3" by simp
  have tr: "str_in ''500'' ''Error generating image: 500 INTERNAL''"
    by code_simp
  have gen: "\<forall>c d p out. \<exists>r c' d'.
      stub_error ''Error generating image: 500 INTERNAL'' c d p out = (Returned r, c', d')
      \<and> \<not> success r \<and> (\<exists>e. error r = Some e \<and> str_in ''500'' e)"
    using tr by (simp add: stub_error_def err_result_def)
  from always_transient_exactly_max_retries_attempts
         [OF m gen, of "item 1 ''001.png'' None" "''out''" "world_of ledger3 with_key"]
  show ?thesis
    by (auto simp: world_of_def generate_calls_def)
qed

text \<open>
  C3, as the code has it. At an attempt where the client reports a failure, the loop
  sleeps five seconds and calls the client again exactly when the error text contains
  \<open>500\<close> and the attempt is not the last one; in every other case this call was the
  last, and the failure is recorded as failed with the first 200 characters of the
  error text.
\<close>

theorem reported_failure_retried_iff_500:
  assumes cg: "call_generator gen prompt path w = (Returned r, w1)"
    and nos: "\<not> success r"
    and le: "attempt \<le> max_retries"
  shows "(prefix (log w @ [Generate prompt path, Sleep 5, Generate prompt path])
            (log (snd (attempt_loop gen pd prompt path max_retries attempt w)))
          \<longleftrightarrow> str_in ''500'' (case error r of None \<Rightarrow> ''Unknown'' | Some e \<Rightarrow> e)
              \<and> attempt < max_retries)
       \<and> (\<not> (str_in ''500'' (case error r of None \<Rightarrow> ''Unknown'' | Some e \<Rightarrow> e)
              \<and> attempt < max_retries)
          \<longrightarrow> attempt_loop gen pd prompt path max_retries attempt w =
                (failure_status ''failed'' pd
                   (take 200 (case error r of None \<Rightarrow> ''Unknown'' | Some e \<Rightarrow> e)) (clock w), w1)
              \<and> log w1 = log w @ [Generate prompt path])"
proof -
  let ?err = "case error r of None \<Rightarrow> ''Unknown'' | Some e \<Rightarrow> e"
  have l1: "log w1 = log w @ [Generate prompt path]" and c1: "clock w1 = clock w"
    using call_generator_fields [OF cg] by simp_all
  show ?thesis
  proof (cases "str_in ''500'' ?err \<and> attempt < max_retries")
    case True
    let ?w2 = "sleep_for 5 w1"
    have step: "attempt_loop gen pd prompt path max_retries attempt w =
                  attempt_loop gen pd prompt path max_retries (attempt + 1) ?w2"
      using attempt_loop_reported_failure [OF cg nos le] True by simp
    obtain out w3 where cg2: "call_generator gen prompt path ?w2 = (out, w3)"
      by (cases "call_generator gen prompt path ?w2") auto
    have l3: "log w3 = log w @ [Generate prompt path, Sleep 5, Generate prompt path]"
      using call_generator_fields [OF cg2] l1 by (simp add: sleep_for_def)
    have "\<not> max_retries < attempt + 1" using True by simp
    from attempt_loop_log_after_call [OF this cg2]
    have "prefix (log w3) (log (snd (attempt_loop gen pd prompt path max_retries (attempt + 1) ?w2)))" .
    with True step l3 show ?thesis by simp
  next
    case False
    have res: "attempt_loop gen pd prompt path max_retries attempt w =
                 (failure_status ''failed'' pd (take 200 ?err) (clock w), w1)"
      using attempt_loop_reported_failure [OF cg nos le] False c1 by simp
    have "\<not> prefix (log w @ [Generate prompt path, Sleep 5, Generate prompt path]) (log w1)"
      using l1 by (auto simp: prefix_def)
    with False res l1 show ?thesis by simp
  qed
qed

theorem reported_failure_retried_iff_500_witness:
  "prefix [Generate ''p'' ''out/001'', Sleep 5, Generate ''p'' ''out/001'']
     (log (snd (attempt_loop (stub_error ''Error generating image: 500 INTERNAL'')
                  (item 1 ''001.png'' None) ''p'' ''out/001'' 2 1 (world_of ledger3 with_key))))
   \<and> status (fst (attempt_loop (stub_error ''Error generating image: 400 INVALID_ARGUMENT'')
                  (item 1 ''001.png'' None) ''p'' ''out/001'' 2 1 (world_of ledger3 with_key)))
       = ''failed''
   \<and> log (snd (attempt_loop (stub_error ''Error generating image: 400 INVALID_ARGUMENT'')
                  (item 1 ''001.png'' None) ''p'' ''out/001'' 2 1 (world_of ledger3 with_key)))
       = [Generate ''p'' ''out/001'']"
proof -
  let ?w = "world_of ledger3 with_key"
  let ?w1 = "?w\<lparr>client := [''out/001''], disk := Map.empty, log := [Generate ''p'' ''out/001'']\<rparr>"
  have tr: "str_in ''500'' ''Error generating image: 500 INTERNAL''"
    and nt: "\<not> str_in ''500'' ''Error generating image: 400 INVALID_ARGUMENT''"
    by code_simp+
  have le: "(1::int) \<le> 2" by simp
  have cg5: "call_generator (stub_error ''Error generating image: 500 INTERNAL'') ''p'' ''out/001'' ?w
               = (Returned (err_result ''Error generating image: 500 INTERNAL''), ?w1)"
    by (simp add: call_generator_def stub_error_def world_of_def)
  have cg4: "call_generator (stub_error ''Error generating image: 400 INVALID_ARGUMENT'') ''p'' ''out/001'' ?w
               = (Returned (err_result ''Error generating image: 400 INVALID_ARGUMENT''), ?w1)"
    by (simp add: call_generator_def stub_error_def world_of_def)
  have ns: "\<not> success (err_result e)" for e
    by (simp add: err_result_def)
  have e5: "(case error (err_result ''Error generating image: 500 INTERNAL'') of
               None \<Rightarrow> ''Unknown'' | Some e \<Rightarrow> e) = ''Error generating image: 500 INTERNAL''"
    and e4: "(case error (err_result ''Error generating image: 400 INVALID_ARGUMENT'') of
               None \<Rightarrow> ''Unknown'' | Some e \<Rightarrow> e) = ''Error generating image: 400 INVALID_ARGUMENT''"
    by (simp_all add: err_result_def)
  have a: "prefix [Generate ''p'' ''out/001'', Sleep 5, Generate ''p'' ''out/001'']
     (log (snd (attempt_loop (stub_error ''Error generating image: 500 INTERNAL'')
                  (item 1 ''001.png'' None) ''p'' ''out/001'' 2 1 ?w)))"
    using conjunct1 [OF reported_failure_retried_iff_500 [OF cg5 ns le, of "item 1 ''001.png'' None"]]
          tr
    unfolding e5 by (simp add: world_of_def)
  have b: "attempt_loop (stub_error ''Error generating image: 400 INVALID_ARGUMENT'')
                  (item 1 ''001.png'' None) ''p'' ''out/001'' 2 1 ?w
           = (failure_status ''failed'' (item 1 ''001.png'' None)
                (take 200 ''Error generating image: 400 INVALID_ARGUMENT'') (clock ?w), ?w1)"
    using conjunct2 [OF reported_failure_retried_iff_500 [OF cg4 ns le, of "item 1 ''001.png'' None"]]
          nt
    unfolding e4 by simp
  show ?thesis
    using a b by (simp add: failure_status_def)
qed

text \<open>
  C3 as stated fails: the error text of a 503 carries the marker of a server-side
  failure, and with an attempt left the loop still gives up after the first call,
  without a sleep.
\<close>

theorem server_error_503_not_retried_counterexample:
  "server_side_marker ''Error generating image: 503 UNAVAILABLE''
   \<and> (1::int) < 2
   \<and> status (fst (attempt_loop (stub_error ''Error generating image: 503 UNAVAILABLE'')
                  (item 1 ''001.png'' None) ''p'' ''out/001'' 2 1 (world_of ledger3 with_key)))
       = ''failed''
   \<and> log (snd (attempt_loop (stub_error ''Error generating image: 503 UNAVAILABLE'')
                  (item 1 ''001.png'' None) ''p'' ''out/001'' 2 1 (world_of ledger3 with_key)))
       = [Generate ''p'' ''out/001'']"
  by code_simp

subsection \<open>A failed crop\<close>

text \<open>
  C6. Take two runs of the loop in which the client returns the same successful result
  with a saved image at the same attempt, the clock reading the same: in the first the
  crop raises, in the second it succeeds. Both record the same outcome, the status
  success with the file name, the URL and the time; the first run only prints the
  notice of the failed crop.
\<close>

theorem crop_failure_keeps_success:
  assumes run1: "call_generator gen1 prompt path w1 = (Returned r, v1)"
    and run2: "call_generator gen2 prompt path w2 = (Returned r, v2)"
    and ok: "success r" and saved: "saved_paths r \<noteq> []"
    and fails: "post_process (hd (saved_paths r)) (disk v1) = Inl e"
    and works: "post_process (hd (saved_paths r)) (disk v2) = Inr d"
    and clk: "clock w1 = clock w2"
    and le: "attempt \<le> max_retries"
  shows "fst (attempt_loop gen1 pd prompt path max_retries attempt w1)
           = fst (attempt_loop gen2 pd prompt path max_retries attempt w2)
       \<and> fst (attempt_loop gen1 pd prompt path max_retries attempt w1)
           = \<lparr>status = ''success'', gs_filename = filename pd,
              url = Some (URL_PREFIX @ filename pd), gs_error = None,
              generated_at = Some (clock w1), attempted_at = None\<rparr>
       \<and> log (snd (attempt_loop gen1 pd prompt path max_retries attempt w1))
           = log w1 @ [Generate prompt path, CropFailed e]"
proof -
  have f1: "clock v1 = clock w1" "log v1 = log w1 @ [Generate prompt path]"
    using call_generator_fields [OF run1] by simp_all
  have f2: "clock v2 = clock w2"
    using call_generator_fields [OF run2] by simp
  have a1: "attempt_loop gen1 pd prompt path max_retries attempt w1
              = (success_status pd (clock w1), v1\<lparr>log := log v1 @ [CropFailed e]\<rparr>)"
    using run1 ok saved fails le f1
    by (subst attempt_loop.simps) (simp add: crop_saved_def Let_def)
  have a2: "attempt_loop gen2 pd prompt path max_retries attempt w2
              = (success_status pd (clock w2), v2\<lparr>disk := d\<rparr>)"
    using run2 ok saved works le f2
    by (subst attempt_loop.simps) (simp add: crop_saved_def Let_def)
  show ?thesis
    using a1 a2 clk f1 by (simp add: success_status_def)
qed

theorem crop_failure_keeps_success_witness:
  "status (fst (attempt_loop (stub_ok [''out/001.png'']) (item 1 ''001.png'' None) ''p'' ''out/001''
                 2 1 (world_of ledger3 with_key))) = ''success''
   \<and> post_process ''out/001.png'' Map.empty = Inl ImageUnreadable
   \<and> fst (attempt_loop (stub_ok [''out/001.png'']) (item 1 ''001.png'' None) ''p'' ''out/001''
            2 1 world_with_image)
       = fst (attempt_loop (stub_ok [''out/001.png'']) (item 1 ''001.png'' None) ''p'' ''out/001''
            2 1 (world_of ledger3 with_key))"
proof -
  let ?r = "ok_result [''out/001.png'']"
  let ?w1 = "world_of ledger3 with_key"
  let ?v1 = "?w1\<lparr>client := [''out/001''], disk := Map.empty, log := log ?w1 @ [Generate ''p'' ''out/001'']\<rparr>"
  let ?v2 = "world_with_image\<lparr>client := [''out/001''], disk := disk world_with_image, log := log world_with_image @ [Generate ''p'' ''out/001'']\<rparr>"
  have run1: "call_generator (stub_ok [''out/001.png'']) ''p'' ''out/001'' ?w1 = (Returned ?r, ?v1)"
    by (simp add: call_generator_def stub_ok_def world_of_def)
  have run2: "call_generator (stub_ok [''out/001.png'']) ''p'' ''out/001'' world_with_image = (Returned ?r, ?v2)"
    by (simp add: call_generator_def stub_ok_def world_of_def world_with_image_def)
  have ok: "success ?r" and saved: "saved_paths ?r \<noteq> []"
    by (simp_all add: ok_result_def)
  have fails: "post_process (hd (saved_paths ?r)) (disk ?v1) = Inl ImageUnreadable"
    by (simp add: post_process_def ok_result_def)
  have works: "post_process (hd (saved_paths ?r)) (disk ?v2)
      = Inr ((disk world_with_image)(''out/001.png'' \<mapsto> \<lparr>img_w = 1000, img_h = 200\<rparr>))"
    by (simp add: post_process_def ok_result_def world_with_image_def crop_box_def crop_def resize_def Let_def)
  have clk: "clock ?w1 = clock world_with_image"
    by (simp add: world_with_image_def)
  have le: "(1::int) \<le> 2" by simp
  note t = crop_failure_keeps_success [OF run1 run2 ok saved fails works clk le, of "item 1 ''001.png'' None"]
  have val: "status (fst (attempt_loop (stub_ok [''out/001.png'']) (item 1 ''001.png'' None)
                ''p'' ''out/001'' 2 1 ?w1)) = ''success''"
    using conjunct1 [OF conjunct2 [OF t]] by simp
  have same: "fst (attempt_loop (stub_ok [''out/001.png'']) (item 1 ''001.png'' None)
                ''p'' ''out/001'' 2 1 world_with_image)
              = fst (attempt_loop (stub_ok [''out/001.png'']) (item 1 ''001.png'' None)
                ''p'' ''out/001'' 2 1 ?w1)"
    using conjunct1 [OF t] by simp
  have "post_process ''out/001.png'' Map.empty = Inl ImageUnreadable"
    using fails by (simp add: ok_result_def)
  with val same show ?thesis by blast
qed

subsection \<open>The missing API key\<close>

text \<open>
  C7, as the code has it. Without a key in the environment, a run that is not
  \<open>--status\<close> and selects at least one item fails with a \<open>ValueError\<close> and exit
  code 1. The ledger has been read by then, and the output directory made; the ledger
  is not written and the client is not called.
\<close>

theorem main_without_api_key:
  assumes nokey: "env w ''GEMINI_API_KEY'' = None \<or> env w ''GEMINI_API_KEY'' = Some []"
    and led: "ledger_file w = Some d"
    and mode: "\<not> status_only a"
    and sel: "select_batch a d \<noteq> []"
  shows "main gen a output_dir w =
           (Inl (ValueError ''API key required.''), w\<lparr>log := log w @ [ReadLedger, MakeOutputDir]\<rparr>)
       \<and> exit_code (fst (main gen a output_dir w)) = 1"
  using assms
  by (auto simp: main_def load_prompts_def NanoBananaProGenerator_init_def exit_code_def Let_def)

theorem main_without_api_key_witness:
  "main stub3 default_args ''out'' (world_of ledger3 Map.empty) =
     (Inl (ValueError ''API key required.''),
      (world_of ledger3 Map.empty)\<lparr>log := [ReadLedger, MakeOutputDir]\<rparr>)
   \<and> select_batch default_args ledger3 = [0, 1, 2]"
proof -
  have sel: "select_batch default_args ledger3 = [0, 1, 2]"
    by code_simp
  have "env (world_of ledger3 Map.empty) ''GEMINI_API_KEY'' = None
        \<or> env (world_of ledger3 Map.empty) ''GEMINI_API_KEY'' = Some []"
    and "ledger_file (world_of ledger3 Map.empty) = Some ledger3"
    and "\<not> status_only default_args"
    and "select_batch default_args ledger3 \<noteq> []"
    using sel by (simp_all add: world_of_def default_args_def)
  from main_without_api_key [OF this, of stub3 "''out''"] sel show ?thesis
    by (simp add: world_of_def)
qed

text \<open>C7 as stated fails: the ledger is read before the key is looked for.\<close>

theorem main_reads_ledger_before_key_counterexample:
  "\<not> (ReadLedger \<notin> set (log (snd (main stub3 default_args ''out'' (world_of ledger3 Map.empty))))
      \<and> WriteLedger \<notin> set (log (snd (main stub3 default_args ''out'' (world_of ledger3 Map.empty)))))"
proof -
  have "log (snd (main stub3 default_args ''out'' (world_of ledger3 Map.empty)))
          = [ReadLedger, MakeOutputDir]"
    by code_simp
  then show ?thesis by simp
qed

subsection \<open>The status report\<close>

text \<open>
  C10. \<open>print_status\<close> divides by the number of items without a guard. On the ledger
  without items it raises \<open>ZeroDivisionError\<close> and prints nothing; on every other
  ledger it prints the counts and the percentage of successes. \<open>main\<close> with
  \<open>--status\<close> is \<open>print_status\<close> on the ledger it read, and on the ledger without
  items \<open>main\<close> ends in the \<open>ZeroDivisionError\<close> in every mode, with exit code 1.
\<close>

theorem print_status_zero_division:
  "(prompts d = [] \<longrightarrow> print_status d w = (Inl ZeroDivisionError, w))
   \<and> (prompts d \<noteq> [] \<longrightarrow>
        print_status d w =
          (Inr (),
           w\<lparr>log := log w @
              [StatusReport
                 \<lparr>n_success = length (filter (\<lambda>p. get_status p = Some ''success'') (prompts d)),
                  n_total = length (prompts d),
                  percent =
                    100 * of_nat (length (filter (\<lambda>p. get_status p = Some ''success'') (prompts d)))
                      / of_nat (length (prompts d)),
                  n_failed = length (filter is_failed (prompts d)),
                  n_pending =
                    int (length (prompts d))
                      - int (length (filter (\<lambda>p. get_status p = Some ''success'') (prompts d)))
                      - int (length (filter is_failed (prompts d)))\<rparr>]\<rparr>))
   \<and> (ledger_file w = Some d \<and> status_only a \<longrightarrow>
        main gen a output_dir w = print_status d (w\<lparr>log := log w @ [ReadLedger]\<rparr>))
   \<and> (ledger_file w = Some d \<and> prompts d = [] \<longrightarrow>
        fst (main gen a output_dir w) = Inl ZeroDivisionError
        \<and> exit_code (fst (main gen a output_dir w)) = 1)"
proof -
  have empty: "print_status d v = (Inl ZeroDivisionError, v)" if "prompts d = []" for v :: "'a world"
    using that by (simp add: print_status_def py_truediv_def)
  have sel: "select_batch a d = []" if "prompts d = []"
    using that by (simp add: select_batch_def select_refs_def slice_to_def)
  have p1: "prompts d = [] \<longrightarrow> print_status d w = (Inl ZeroDivisionError, w)"
    using empty by simp
  have p2: "prompts d \<noteq> [] \<longrightarrow>
        print_status d w =
          (Inr (),
           w\<lparr>log := log w @
              [StatusReport
                 \<lparr>n_success = length (filter (\<lambda>p. get_status p = Some ''success'') (prompts d)),
                  n_total = length (prompts d),
                  percent =
                    100 * of_nat (length (filter (\<lambda>p. get_status p = Some ''success'') (prompts d)))
                      / of_nat (length (prompts d)),
                  n_failed = length (filter is_failed (prompts d)),
                  n_pending =
                    int (length (prompts d))
                      - int (length (filter (\<lambda>p. get_status p = Some ''success'') (prompts d)))
                      - int (length (filter is_failed (prompts d)))\<rparr>]\<rparr>)"
    by (simp add: print_status_def py_truediv_def Let_def)
  have p3: "ledger_file w = Some d \<and> status_only a \<longrightarrow>
        main gen a output_dir w = print_status d (w\<lparr>log := log w @ [ReadLedger]\<rparr>)"
    by (simp add: main_def load_prompts_def)
  have p4: "ledger_file w = Some d \<and> prompts d = [] \<longrightarrow>
        fst (main gen a output_dir w) = Inl ZeroDivisionError
        \<and> exit_code (fst (main gen a output_dir w)) = 1"
    using empty sel by (simp add: main_def load_prompts_def exit_code_def Let_def)
  from p1 p2 p3 p4 show ?thesis by blast
qed

theorem print_status_zero_division_witness:
  "prompts ledger0 = []
   \<and> fst (print_status ledger0 (world_of ledger0 with_key)) = Inl ZeroDivisionError
   \<and> fst (main stub3 (default_args\<lparr>status_only := True\<rparr>) ''out'' (world_of ledger0 with_key))
       = Inl ZeroDivisionError
   \<and> fst (main stub3 default_args ''out'' (world_of ledger0 with_key)) = Inl ZeroDivisionError
   \<and> prompts ledger3 \<noteq> []
   \<and> fst (print_status ledger3 (world_of ledger3 with_key)) = Inr ()"
proof -
  have e0: "prompts ledger0 = []" and e3: "prompts ledger3 \<noteq> []"
    by (simp_all add: ledger0_def ledger3_def)
  have f0: "ledger_file (world_of ledger0 with_key) = Some ledger0"
    by (simp add: world_of_def)
  note t0 = print_status_zero_division [of ledger0 "world_of ledger0 with_key"]
  note t3 = print_status_zero_division [of ledger3 "world_of ledger3 with_key"]
  have a: "fst (print_status ledger0 (world_of ledger0 with_key)) = Inl ZeroDivisionError"
    using conjunct1 [OF t0] e0 by simp
  have b: "fst (main stub3 (default_args\<lparr>status_only := True\<rparr>) ''out'' (world_of ledger0 with_key))
             = Inl ZeroDivisionError"
    using conjunct2 [OF conjunct2 [OF conjunct2 [OF t0 [of "default_args\<lparr>status_only := True\<rparr>" stub3 "''out''"]]]]
          e0 f0 by simp
  have c: "fst (main stub3 default_args ''out'' (world_of ledger0 with_key)) = Inl ZeroDivisionError"
    using conjunct2 [OF conjunct2 [OF conjunct2 [OF t0 [of default_args stub3 "''out''"]]]]
          e0 f0 by simp
  have d: "fst (print_status ledger3 (world_of ledger3 with_key)) = Inr ()"
    using conjunct1 [OF conjunct2 [OF t3]] e3 by simp
  from e0 a b c e3 d show ?thesis by blast
qed

subsection \<open>The run over three items\<close>

text \<open>
  C1, as the code has it. With the default of two attempts, item 2 is given up after
  its second server error, before the call that would succeed: the run over the three
  pending items ends with the statuses success, failed, failed after four calls of the
  client, one for item 1, two for item 2 and one for item 3.
\<close>

theorem three_items_default_retries:
  "fst (main stub3 default_args ''out'' (world_of ledger3 with_key)) = Inr ()
   \<and> map_option (\<lambda>d. map get_status (prompts d))
        (ledger_file (snd (main stub3 default_args ''out'' (world_of ledger3 with_key))))
       = Some [Some ''success'', Some ''failed'', Some ''failed'']
   \<and> generate_calls (log (snd (main stub3 default_args ''out'' (world_of ledger3 with_key)))) = 4
   \<and> client (snd (main stub3 default_args ''out'' (world_of ledger3 with_key)))
       = [''out/001'', ''out/002'', ''out/002'', ''out/003'']"
  by code_simp

text \<open>C1 as stated fails: the statuses are not success, success, failed after five calls.\<close>

theorem three_items_second_succeeds_counterexample:
  "\<not> (map_option (\<lambda>d. map get_status (prompts d))
        (ledger_file (snd (main stub3 default_args ''out'' (world_of ledger3 with_key))))
       = Some [Some ''success'', Some ''success'', Some ''failed'']
      \<and> generate_calls (log (snd (main stub3 default_args ''out'' (world_of ledger3 with_key)))) = 5)"
  by code_simp

subsection \<open>Saving the ledger\<close>

text \<open>
  C4, as the code has it. A call of \<open>save_prompts\<close> that runs to its end leaves the
  file with the whole new text. A call that is interrupted leaves the old text (before
  the file is opened) or a beginning of the new text, which may be the empty file.
\<close>

theorem save_prompts_trace_prefixes:
  "last (save_prompts_trace chunks old) = concat chunks
   \<and> (\<forall>s \<in> set (save_prompts_trace chunks old). s = old \<or> prefix s (concat chunks))"
  by (auto simp: save_prompts_trace_def last_map concat_take_prefix simp del: upt_Suc)

theorem save_prompts_trace_prefixes_witness:
  "last (save_prompts_trace new_chunks old_text) = concat new_chunks
   \<and> [] \<in> set (save_prompts_trace new_chunks old_text)
   \<and> prefix [] (concat new_chunks)"
proof -
  have mem: "[] \<in> set (save_prompts_trace new_chunks old_text)"
    by code_simp
  from save_prompts_trace_prefixes [of new_chunks old_text] mem show ?thesis
    by simp
qed

text \<open>
  C4 as stated fails: after \<open>open\<close> the file is empty, which is neither the old text
  nor the new one.
\<close>

theorem save_prompts_interrupted_counterexample:
  "\<not> (\<forall>s \<in> set (save_prompts_trace new_chunks old_text).
         s = old_text \<or> s = concat new_chunks)"
  by (simp add: save_prompts_trace_def new_chunks_def old_text_def dquoted_def)

end
